theory Spec2Isabelle
  imports Complex_Main "HOL-Library.Word" "HOL-Library.Sublist" "HOL-Library.Multiset"
begin

section \<open>Python values\<close>

text \<open>
  The numbers of an input list: an \<open>int\<close> (unbounded) or a finite \<open>float\<close>, each
  given by its exact value.
\<close>

datatype number = PyInt int | PyFloat rat

fun to_rat :: "number \<Rightarrow> rat" where
  "to_rat (PyInt i) = of_int i"
| "to_rat (PyFloat q) = q"

text \<open>\<open>value == 0\<close>: numeric equality, so \<open>0\<close> and \<open>0.0\<close> both are zero.\<close>

definition is_zero :: "number \<Rightarrow> bool" where
  "is_zero v \<longleftrightarrow> to_rat v = 0"

text \<open>
  The values an argument can hold where the code tests its type: \<open>None\<close>, a number,
  a string, or a list of numbers.
\<close>

datatype pyval = PyNone | PyNum number | PyStr string | PyList "number list"


text \<open>
  \<open>str.lower()\<close> on the ASCII letters; every other byte is left as it is. No character
  outside ASCII lowercases to a letter of the four type tags, so membership of the
  lowercased tag in the table is decided by the ASCII letters alone.
\<close>

definition lower_char :: "char \<Rightarrow> char" where
  "lower_char c =
     (let n = (of_char c :: nat)
      in if of_char CHR ''A'' \<le> n \<and> n \<le> of_char CHR ''Z'' then char_of (n + 32) else c)"

definition lower :: "string \<Rightarrow> string" where
  "lower s = map lower_char s"

datatype error = ValueError string | NotImplementedError | OverflowError | PydanticError string

type_synonym uuid = "128 word"

type_synonym datetime = nat

subsection \<open>Arithmetic at run time\<close>

text \<open>
  A value computed at run time is an int or a float of the interpreter. The floats are
  a type \<open>'f\<close> of which nothing is assumed, and what the interpreter does with them is
  given by a record of operations: the float of an input float, the float of an int that
  fits, the rounded quotient of two ints that fits, the difference, product and quotient
  of two floats (which never raise, overflow giving an infinity), and the built-in
  \<open>sum\<close> on a list that holds a float, whose algorithm is the interpreter's own. Every
  theorem below holds for every such record, so for the rounding, the infinities and
  the NaN of the interpreter that runs the code.
\<close>

datatype 'f pyvalue = IntValue int | FloatValue 'f

record 'f float_arith =
  float_of_rat :: "rat \<Rightarrow> 'f"
  float_of_int :: "int \<Rightarrow> 'f"
  int_truediv :: "int \<Rightarrow> int \<Rightarrow> 'f"
  float_sub :: "'f \<Rightarrow> 'f \<Rightarrow> 'f"
  float_mul :: "'f \<Rightarrow> 'f \<Rightarrow> 'f"
  float_truediv :: "'f \<Rightarrow> 'f \<Rightarrow> 'f"
  float_sum :: "number list \<Rightarrow> error + 'f pyvalue"

text \<open>
  An int is converted to a float by rounding to 53 bits, to nearest and ties to even, and
  the conversion raises \<open>OverflowError\<close> when the rounded value would reach \<open>2 ^ 1024\<close>:
  from \<open>2 ^ 1024 - 2 ^ 970\<close> on, the midpoint between the largest float and
  \<open>2 ^ 1024\<close>. The true division of two ints rounds the exact quotient in the same way
  and raises on the same bound.
\<close>

definition float_limit :: rat where
  "float_limit = 2 ^ 1024 - 2 ^ 970"

definition int_overflows :: "int \<Rightarrow> bool" where
  "int_overflows i \<longleftrightarrow> float_limit \<le> \<bar>of_int i\<bar>"

definition quotient_overflows :: "int \<Rightarrow> int \<Rightarrow> bool" where
  "quotient_overflows a b \<longleftrightarrow> float_limit \<le> \<bar>of_int a / of_int b\<bar>"

text \<open>An input number as a run-time value.\<close>

fun value_of :: "'f float_arith \<Rightarrow> number \<Rightarrow> 'f pyvalue" where
  "value_of ar (PyInt i) = IntValue i"
| "value_of ar (PyFloat q) = FloatValue (float_of_rat ar q)"

text \<open>
  An operator with a float operand converts the other operand to a float first, and the
  conversion of an int can raise.
\<close>

fun as_float :: "'f float_arith \<Rightarrow> 'f pyvalue \<Rightarrow> error + 'f" where
  "as_float ar (IntValue i) =
     (if int_overflows i then Inl OverflowError else Inr (float_of_int ar i))"
| "as_float ar (FloatValue f) = Inr f"

definition float_binop ::
    "('f \<Rightarrow> 'f \<Rightarrow> 'f) \<Rightarrow> 'f float_arith \<Rightarrow> 'f pyvalue \<Rightarrow> 'f pyvalue \<Rightarrow> error + 'f pyvalue" where
  "float_binop f ar a b =
     (case as_float ar a of
        Inl e \<Rightarrow> Inl e
      | Inr x \<Rightarrow>
          (case as_float ar b of
             Inl e \<Rightarrow> Inl e
           | Inr y \<Rightarrow> Inr (FloatValue (f x y))))"

text \<open>\<open>a - b\<close> and \<open>a * b\<close>: exact on two ints, on floats otherwise.\<close>

fun py_sub :: "'f float_arith \<Rightarrow> 'f pyvalue \<Rightarrow> 'f pyvalue \<Rightarrow> error + 'f pyvalue" where
  "py_sub ar (IntValue a) (IntValue b) = Inr (IntValue (a - b))"
| "py_sub ar a b = float_binop (float_sub ar) ar a b"

fun py_mul :: "'f float_arith \<Rightarrow> 'f pyvalue \<Rightarrow> 'f pyvalue \<Rightarrow> error + 'f pyvalue" where
  "py_mul ar (IntValue a) (IntValue b) = Inr (IntValue (a * b))"
| "py_mul ar a b = float_binop (float_mul ar) ar a b"

text \<open>
  \<open>a / b\<close> for a divisor that is not zero (the callers test the divisor first): always
  a float, for two ints the rounded exact quotient.
\<close>

fun py_truediv :: "'f float_arith \<Rightarrow> 'f pyvalue \<Rightarrow> 'f pyvalue \<Rightarrow> error + 'f pyvalue" where
  "py_truediv ar (IntValue a) (IntValue b) =
     (if quotient_overflows a b then Inl OverflowError
      else Inr (FloatValue (int_truediv ar a b)))"
| "py_truediv ar a b = float_binop (float_truediv ar) ar a b"

text \<open>
  The built-in \<open>sum(xs)\<close>: on a list of ints the exact sum; on a list that holds a float,
  what the interpreter's summation gives.
\<close>

fun ints_of :: "number list \<Rightarrow> int list option" where
  "ints_of [] = Some []"
| "ints_of (PyInt i # xs) = map_option (Cons i) (ints_of xs)"
| "ints_of (PyFloat q # xs) = None"

definition py_sum :: "'f float_arith \<Rightarrow> number list \<Rightarrow> error + 'f pyvalue" where
  "py_sum ar xs =
     (case ints_of xs of
        Some js \<Rightarrow> Inr (IntValue (sum_list js))
      | None \<Rightarrow> float_sum ar xs)"

section \<open>app/models/calculation: the calculation entity\<close>

datatype calc_class = Calculation | Addition | Subtraction | Multiplication | Division

text \<open>
  An instance: its Python class and its columns. A column that has no value yet is
  \<open>None\<close>: the defaults of \<open>id\<close>, \<open>created_at\<close> and \<open>updated_at\<close> are applied by the
  storage layer when the row is written, and nothing in this module assigns \<open>result\<close>.
\<close>

record calculation =
  cls :: calc_class
  id' :: "uuid option"
  user_id :: uuid
  type :: string
  inputs :: pyval
  result :: "number option"
  created_at :: "datetime option"
  updated_at :: "datetime option"

text \<open>The \<open>polymorphic_identity\<close> of each mapped class, stored in the \<open>type\<close> column.\<close>

fun polymorphic_identity :: "calc_class \<Rightarrow> string" where
  "polymorphic_identity Calculation = ''calculation''"
| "polymorphic_identity Addition = ''addition''"
| "polymorphic_identity Subtraction = ''subtraction''"
| "polymorphic_identity Multiplication = ''multiplication''"
| "polymorphic_identity Division = ''division''"

text \<open>\<open>calculation_class(user_id=user_id, inputs=inputs)\<close>: the keyword constructor.\<close>

definition new_calculation :: "calc_class \<Rightarrow> uuid \<Rightarrow> pyval \<Rightarrow> calculation" where
  "new_calculation c uid ins =
     \<lparr> cls = c, id' = None, user_id = uid, type = polymorphic_identity c,
       inputs = ins, result = None, created_at = None, updated_at = None \<rparr>"

text \<open>The dictionary \<open>calculation_classes\<close> of the factory, with \<open>dict.get\<close> as lookup.\<close>

definition calculation_classes :: "string \<rightharpoonup> calc_class" where
  "calculation_classes =
     [''addition'' \<mapsto> Addition, ''subtraction'' \<mapsto> Subtraction,
      ''multiplication'' \<mapsto> Multiplication, ''division'' \<mapsto> Division]"

definition create :: "string \<Rightarrow> uuid \<Rightarrow> pyval \<Rightarrow> error + calculation" where
  "create calculation_type uid ins =
     (case calculation_classes (lower calculation_type) of
        None \<Rightarrow> Inl (ValueError (''Unsupported calculation type: '' @ calculation_type))
      | Some calculation_class \<Rightarrow> Inr (new_calculation calculation_class uid ins))"

text \<open>
  The methods \<open>get_result\<close> take the instance and give back the outcome together with
  the instance as the call leaves it. The loop variable \<open>result\<close> of the source is a
  local of the method, not the column. An exception raised by an operator leaves the
  loop and the method.
\<close>

definition AbstractCalculation_get_result ::
    "calculation \<Rightarrow> (error + 'f pyvalue) \<times> calculation" where
  "AbstractCalculation_get_result self = (Inl NotImplementedError, self)"

definition Addition_get_result ::
    "'f float_arith \<Rightarrow> calculation \<Rightarrow> (error + 'f pyvalue) \<times> calculation" where
  "Addition_get_result ar self =
     (case inputs self of
        PyList xs \<Rightarrow>
          if length xs < 2
          then (Inl (ValueError ''Inputs must be a list with at least two numbers.''), self)
          else (py_sum ar xs, self)
      | _ \<Rightarrow> (Inl (ValueError ''Inputs must be a list of numbers.''), self))"

text \<open>\<open>result = self.inputs[0]; for value in self.inputs[1:]: result -= value\<close>\<close>

fun subtraction_loop ::
    "'f float_arith \<Rightarrow> 'f pyvalue \<Rightarrow> number list \<Rightarrow> error + 'f pyvalue" where
  "subtraction_loop ar res [] = Inr res"
| "subtraction_loop ar res (v # values) =
     (case py_sub ar res (value_of ar v) of
        Inl e \<Rightarrow> Inl e
      | Inr r \<Rightarrow> subtraction_loop ar r values)"

definition Subtraction_get_result ::
    "'f float_arith \<Rightarrow> calculation \<Rightarrow> (error + 'f pyvalue) \<times> calculation" where
  "Subtraction_get_result ar self =
     (case inputs self of
        PyList xs \<Rightarrow>
          if length xs < 2
          then (Inl (ValueError ''Inputs must be a list with at least two numbers.''), self)
          else (subtraction_loop ar (value_of ar (xs ! 0)) (drop 1 xs), self)
      | _ \<Rightarrow> (Inl (ValueError ''Inputs must be a list of numbers.''), self))"

text \<open>\<open>result = 1; for value in self.inputs: result *= value\<close>\<close>

fun multiplication_loop ::
    "'f float_arith \<Rightarrow> 'f pyvalue \<Rightarrow> number list \<Rightarrow> error + 'f pyvalue" where
  "multiplication_loop ar res [] = Inr res"
| "multiplication_loop ar res (v # values) =
     (case py_mul ar res (value_of ar v) of
        Inl e \<Rightarrow> Inl e
      | Inr r \<Rightarrow> multiplication_loop ar r values)"

definition Multiplication_get_result ::
    "'f float_arith \<Rightarrow> calculation \<Rightarrow> (error + 'f pyvalue) \<times> calculation" where
  "Multiplication_get_result ar self =
     (case inputs self of
        PyList xs \<Rightarrow>
          if length xs < 2
          then (Inl (ValueError ''Inputs must be a list with at least two numbers.''), self)
          else (multiplication_loop ar (IntValue 1) xs, self)
      | _ \<Rightarrow> (Inl (ValueError ''Inputs must be a list of numbers.''), self))"

text \<open>
  \<open>for value in self.inputs[1:]: if value == 0: raise ...; result /= value\<close>: the raise leaves
  the loop and the method, and the quotient reached so far is dropped.
\<close>

fun division_loop ::
    "'f float_arith \<Rightarrow> 'f pyvalue \<Rightarrow> number list \<Rightarrow> error + 'f pyvalue" where
  "division_loop ar res [] = Inr res"
| "division_loop ar res (v # values) =
     (if is_zero v then Inl (ValueError ''Cannot divide by zero.'')
      else (case py_truediv ar res (value_of ar v) of
              Inl e \<Rightarrow> Inl e
            | Inr r \<Rightarrow> division_loop ar r values))"

definition Division_get_result ::
    "'f float_arith \<Rightarrow> calculation \<Rightarrow> (error + 'f pyvalue) \<times> calculation" where
  "Division_get_result ar self =
     (case inputs self of
        PyList xs \<Rightarrow>
          if length xs < 2
          then (Inl (ValueError ''Inputs must be a list with at least two numbers.''), self)
          else (division_loop ar (value_of ar (xs ! 0)) (drop 1 xs), self)
      | _ \<Rightarrow> (Inl (ValueError ''Inputs must be a list of numbers.''), self))"

text \<open>Method lookup by the class of the instance.\<close>

definition get_result ::
    "'f float_arith \<Rightarrow> calculation \<Rightarrow> (error + 'f pyvalue) \<times> calculation" where
  "get_result ar self =
     (case cls self of
        Calculation \<Rightarrow> AbstractCalculation_get_result self
      | Addition \<Rightarrow> Addition_get_result ar self
      | Subtraction \<Rightarrow> Subtraction_get_result ar self
      | Multiplication \<Rightarrow> Multiplication_get_result ar self
      | Division \<Rightarrow> Division_get_result ar self)"

text \<open>The call chain \<open>Calculation.create(t, uid, xs).get_result()\<close>.\<close>

definition create_get_result ::
    "'f float_arith \<Rightarrow> string \<Rightarrow> uuid \<Rightarrow> pyval \<Rightarrow> error + 'f pyvalue" where
  "create_get_result ar calculation_type uid ins =
     (case create calculation_type uid ins of
        Inl e \<Rightarrow> Inl e
      | Inr c \<Rightarrow> fst (get_result ar c))"

text \<open>
  An arithmetic whose floats are the rationals themselves, without rounding and without
  bound. It is one arithmetic among those the theorems range over; it serves to evaluate
  examples, on ints or with results that binary floating point gives exactly as well.
\<close>

definition exact_arith :: "rat float_arith" where
  "exact_arith =
     \<lparr> float_of_rat = (\<lambda>q. q), float_of_int = of_int,
       int_truediv = (\<lambda>a b. of_int a / of_int b),
       float_sub = (\<lambda>x y. x - y), float_mul = (\<lambda>x y. x * y),
       float_truediv = (\<lambda>x y. x / y),
       float_sum = (\<lambda>xs. Inr (FloatValue (sum_list (map to_rat xs)))) \<rparr>"

subsection \<open>The textual representation\<close>

definition digit_char :: "nat \<Rightarrow> char" where
  "digit_char d = char_of (of_char CHR ''0'' + d)"

function str_nat :: "nat \<Rightarrow> string" where
  "str_nat n = (if n < 10 then [digit_char n] else str_nat (n div 10) @ [digit_char (n mod 10)])"
  by pat_completeness auto
termination
  by (relation "measure (\<lambda>n. n)") auto

declare str_nat.simps [simp del]

definition str_int :: "int \<Rightarrow> string" where
  "str_int i = (if i < 0 then CHR ''-'' # str_nat (nat (- i)) else str_nat (nat i))"

text \<open>
  How a float prints depends on its binary representation, which the model does not
  have; the printer of floats is a parameter.
\<close>

fun repr_number :: "(rat \<Rightarrow> string) \<Rightarrow> number \<Rightarrow> string" where
  "repr_number float_repr (PyInt i) = str_int i"
| "repr_number float_repr (PyFloat q) = float_repr q"

fun join :: "string \<Rightarrow> string list \<Rightarrow> string" where
  "join sep [] = []"
| "join sep [s] = s"
| "join sep (s # t # ss) = s @ sep @ join sep (t # ss)"

text \<open>What an f-string field \<open>{v}\<close> inserts for a value \<open>v\<close>.\<close>

fun py_format :: "(rat \<Rightarrow> string) \<Rightarrow> pyval \<Rightarrow> string" where
  "py_format float_repr PyNone = ''None''"
| "py_format float_repr (PyNum n) = repr_number float_repr n"
| "py_format float_repr (PyStr s) = s"
| "py_format float_repr (PyList xs) =
     ''['' @ join '', '' (map (repr_number float_repr) xs) @ '']''"

text \<open>\<open>f"<Calculation(type={self.type}, inputs={self.inputs})>"\<close>\<close>

definition repr :: "(rat \<Rightarrow> string) \<Rightarrow> calculation \<Rightarrow> string" where
  "repr float_repr self =
     ''<Calculation(type='' @ type self @ '', inputs='' @
       py_format float_repr (inputs self) @ '')>''"

text \<open>A printer for instances that hold no float.\<close>

definition no_float_repr :: "rat \<Rightarrow> string" where
  "no_float_repr q = []"

section \<open>app/schemas/calculation: the validation schemas\<close>











subsection \<open>Validating a request\<close>







section \<open>The left fold of a subtraction\<close>

text \<open>
  The difference \<open>a - v\<close> of a run-time value and an input number, case by case: two
  ints are subtracted exactly; otherwise both operands are floats, an int operand being
  converted, which fails when the int does not fit.
\<close>

definition minus :: "'f float_arith \<Rightarrow> 'f pyvalue \<Rightarrow> number \<Rightarrow> error + 'f pyvalue" where
  "minus ar a v =
     (case (a, v) of
        (IntValue i, PyInt j) \<Rightarrow> Inr (IntValue (i - j))
      | (IntValue i, PyFloat q) \<Rightarrow>
          if int_overflows i then Inl OverflowError
          else Inr (FloatValue (float_sub ar (float_of_int ar i) (float_of_rat ar q)))
      | (FloatValue f, PyInt j) \<Rightarrow>
          if int_overflows j then Inl OverflowError
          else Inr (FloatValue (float_sub ar f (float_of_int ar j)))
      | (FloatValue f, PyFloat q) \<Rightarrow>
          Inr (FloatValue (float_sub ar f (float_of_rat ar q))))"

text \<open>
  \<open>((xs[0] - xs[1]) - xs[2]) - ...\<close>: the first element, then each later element
  subtracted in order; an error, once raised, is the outcome.
\<close>

definition left_fold_minus :: "'f float_arith \<Rightarrow> number list \<Rightarrow> error + 'f pyvalue" where
  "left_fold_minus ar xs =
     foldl (\<lambda>acc v. case acc of Inl e \<Rightarrow> Inl e | Inr a \<Rightarrow> minus ar a v)
       (Inr (value_of ar (xs ! 0))) (drop 1 xs)"

text \<open>A number fits when it is a float, or an int that converts to a float.\<close>

fun fits_float :: "number \<Rightarrow> bool" where
  "fits_float (PyInt i) = (\<not> int_overflows i)"
| "fits_float (PyFloat q) = True"

text \<open>The same for a run-time value.\<close>

fun value_fits :: "'f pyvalue \<Rightarrow> bool" where
  "value_fits (IntValue i) = (\<not> int_overflows i)"
| "value_fits (FloatValue f) = True"

section \<open>Properties of the operators and the loops\<close>

lemma float_limit_pos: "0 < float_limit"
  by (simp add: float_limit_def)

lemma quotient_fits:
  assumes "\<not> int_overflows a" and "b \<noteq> 0"
  shows "\<not> quotient_overflows a b"
proof -
  from assms(2) have "1 \<le> \<bar>b\<bar>" by arith
  then have "(1 :: rat) \<le> of_int \<bar>b\<bar>" by (simp only: of_int_1_le_iff)
  then have "1 \<le> \<bar>of_int b :: rat\<bar>" by simp
  then have "\<bar>of_int a :: rat\<bar> * 1 \<le> \<bar>of_int a\<bar> * \<bar>of_int b\<bar>"
    by (intro mult_left_mono) simp_all
  moreover have "0 < \<bar>of_int b :: rat\<bar>"
    using assms(2) by simp
  ultimately have "\<bar>of_int a :: rat\<bar> / \<bar>of_int b\<bar> \<le> \<bar>of_int a\<bar>"
    by (simp add: pos_divide_le_eq)
  then have "\<bar>of_int a / of_int b :: rat\<bar> \<le> \<bar>of_int a\<bar>"
    by (simp only: abs_divide)
  with assms(1) show ?thesis
    by (simp add: int_overflows_def quotient_overflows_def)
qed

text \<open>An operator raises nothing but \<open>OverflowError\<close>.\<close>

lemma as_float_error: "as_float ar a = Inl e \<Longrightarrow> e = OverflowError"
  by (cases a) (auto split: if_splits)

lemma float_binop_error: "float_binop f ar a b = Inl e \<Longrightarrow> e = OverflowError"
  by (auto simp add: float_binop_def split: sum.splits dest: as_float_error)

lemma py_truediv_error: "py_truediv ar a b = Inl e \<Longrightarrow> e = OverflowError"
  by (cases a; cases b) (auto split: if_splits dest: float_binop_error)

lemma py_truediv_float: "py_truediv ar a b = Inr r \<Longrightarrow> \<exists>f. r = FloatValue f"
  by (cases a; cases b) (auto simp add: float_binop_def split: if_splits sum.splits)

lemma value_fits_value_of: "value_fits (value_of ar v) = fits_float v"
  by (cases v) simp_all

lemma py_truediv_fits:
  assumes "value_fits a" and "fits_float v" and "\<not> is_zero v"
  shows "\<exists>f. py_truediv ar a (value_of ar v) = Inr (FloatValue f)"
proof (cases a)
  case (IntValue i)
  show ?thesis
  proof (cases v)
    case (PyInt j)
    with assms(3) have "j \<noteq> 0" by (simp add: is_zero_def)
    with assms(1) IntValue have "\<not> quotient_overflows i j"
      by (simp add: quotient_fits)
    with IntValue PyInt show ?thesis by simp
  next
    case (PyFloat q)
    with assms(1) IntValue show ?thesis by (simp add: float_binop_def)
  qed
next
  case (FloatValue f)
  with assms(2) show ?thesis
    by (cases v) (simp_all add: float_binop_def)
qed

lemma division_loop_only_zero:
  "division_loop ar a vs = Inl (ValueError m) \<Longrightarrow> list_ex is_zero vs"
proof (induction vs arbitrary: a)
  case Nil
  then show ?case by simp
next
  case (Cons v vs)
  show ?case
  proof (cases "is_zero v")
    case True
    then show ?thesis by simp
  next
    case False
    show ?thesis
    proof (cases "py_truediv ar a (value_of ar v)")
      case (Inl e)
      with False Cons.prems py_truediv_error [OF Inl] show ?thesis by simp
    next
      case (Inr r)
      with False Cons.prems have "division_loop ar r vs = Inl (ValueError m)" by simp
      then show ?thesis using Cons.IH by simp
    qed
  qed
qed

lemma division_loop_zero:
  "list_ex is_zero vs \<Longrightarrow>
     division_loop ar a vs = Inl (ValueError ''Cannot divide by zero.'')
     \<or> division_loop ar a vs = Inl OverflowError"
proof (induction vs arbitrary: a)
  case Nil
  then show ?case by simp
next
  case (Cons v vs)
  show ?case
  proof (cases "is_zero v")
    case True
    then show ?thesis by simp
  next
    case False
    with Cons.prems have rest: "list_ex is_zero vs" by simp
    show ?thesis
    proof (cases "py_truediv ar a (value_of ar v)")
      case (Inl e)
      with False py_truediv_error [OF Inl] show ?thesis by simp
    next
      case (Inr r)
      with False Cons.IH [OF rest, of r] show ?thesis by simp
    qed
  qed
qed

lemma division_loop_fits:
  assumes "value_fits a" and "list_all fits_float vs"
  shows "(list_ex is_zero vs \<longrightarrow>
            division_loop ar a vs = Inl (ValueError ''Cannot divide by zero.''))
       \<and> (\<not> list_ex is_zero vs \<longrightarrow> (\<exists>r. division_loop ar a vs = Inr r))"
  using assms
proof (induction vs arbitrary: a)
  case Nil
  then show ?case by simp
next
  case (Cons v vs)
  show ?case
  proof (cases "is_zero v")
    case True
    then show ?thesis by simp
  next
    case False
    from Cons.prems have fv: "fits_float v" and fvs: "list_all fits_float vs" by simp_all
    from py_truediv_fits [OF Cons.prems(1) fv False]
    obtain f where q: "py_truediv ar a (value_of ar v) = Inr (FloatValue f)" by blast
    have "value_fits (FloatValue f :: 'a pyvalue)" by simp
    from Cons.IH [OF this fvs] False q show ?thesis by simp
  qed
qed

lemma list_ex_drop1:
  "list_ex P (drop 1 xs) \<longleftrightarrow> (\<exists>i. 1 \<le> i \<and> i < length xs \<and> P (xs ! i))"
proof (cases xs)
  case Nil
  then show ?thesis by simp
next
  case (Cons x rest)
  have "list_ex P rest \<longleftrightarrow> (\<exists>j < length rest. P (rest ! j))"
    unfolding list_ex_iff by (metis in_set_conv_nth)
  also have "\<dots> \<longleftrightarrow> (\<exists>i. 1 \<le> i \<and> i < length (x # rest) \<and> P ((x # rest) ! i))"
  proof
    assume "\<exists>j < length rest. P (rest ! j)"
    then obtain j where "j < length rest" "P (rest ! j)" by blast
    then have "1 \<le> Suc j \<and> Suc j < length (x # rest) \<and> P ((x # rest) ! Suc j)" by simp
    then show "\<exists>i. 1 \<le> i \<and> i < length (x # rest) \<and> P ((x # rest) ! i)" by blast
  next
    assume "\<exists>i. 1 \<le> i \<and> i < length (x # rest) \<and> P ((x # rest) ! i)"
    then obtain i where i: "1 \<le> i" "i < length (x # rest)" "P ((x # rest) ! i)" by blast
    then obtain j where "i = Suc j" by (cases i) simp_all
    with i have "j < length rest \<and> P (rest ! j)" by simp
    then show "\<exists>j < length rest. P (rest ! j)" by blast
  qed
  finally show ?thesis using Cons by simp
qed

lemma drop1_split: "2 \<le> length xs \<Longrightarrow> xs = xs ! 0 # drop 1 xs"
  by (cases xs) simp_all

lemma list_all_fits_split:
  assumes "2 \<le> length xs" and "list_all fits_float xs"
  shows "fits_float (xs ! 0) \<and> list_all fits_float (drop 1 xs)"
proof -
  from assms(1) have "xs = xs ! 0 # drop 1 xs" by (rule drop1_split)
  then have "list_all fits_float (xs ! 0 # drop 1 xs)" using assms(2) by simp
  then show ?thesis by simp
qed

lemma py_sub_minus: "py_sub ar a (value_of ar v) = minus ar a v"
  by (cases a; cases v) (simp_all add: minus_def float_binop_def)

lemma foldl_minus_error:
  "foldl (\<lambda>acc v. case acc of Inl e \<Rightarrow> Inl e | Inr a \<Rightarrow> minus ar a v) (Inl e) vs = Inl e"
  by (induction vs) simp_all

lemma subtraction_loop_foldl:
  "subtraction_loop ar a vs =
     foldl (\<lambda>acc v. case acc of Inl e \<Rightarrow> Inl e | Inr a \<Rightarrow> minus ar a v) (Inr a) vs"
proof (induction vs arbitrary: a)
  case Nil
  show ?case by simp
next
  case (Cons v vs)
  show ?case
  proof (cases "minus ar a v")
    case (Inl e)
    then show ?thesis by (simp add: py_sub_minus foldl_minus_error)
  next
    case (Inr r)
    then show ?thesis by (simp add: py_sub_minus Cons.IH)
  qed
qed

lemma subtraction_loop_ints:
  "subtraction_loop ar (IntValue i) (map PyInt js) = Inr (IntValue (foldl (\<lambda>a b. a - b) i js))"
  by (induction js arbitrary: i) simp_all

lemma subtraction_loop_floats:
  "subtraction_loop ar (FloatValue f) (map PyFloat qs)
     = Inr (FloatValue (foldl (float_sub ar) f (map (float_of_rat ar) qs)))"
  by (induction qs arbitrary: f) (simp_all add: float_binop_def)

text \<open>Lowercasing a lowercased string changes nothing.\<close>

lemma lower_char_idem: "lower_char (lower_char c) = lower_char c"
  by (auto simp add: lower_char_def Let_def)

lemma lower_idem: "lower (lower s) = lower s"
  by (simp add: lower_def lower_char_idem)

lemma calculation_classes_None:
  "calculation_classes k = None \<longleftrightarrow>
     k \<notin> {''addition'', ''subtraction'', ''multiplication'', ''division''}"
  by (simp add: calculation_classes_def)

lemma digit_char_7: "digit_char 7 = CHR ''7''" by code_simp
lemma digit_char_8: "digit_char 8 = CHR ''8''" by code_simp
lemma digit_char_9: "digit_char 9 = CHR ''9''" by code_simp




section \<open>Division by zero\<close>

text \<open>
  Claim C1, as stated: for a division of a list of at least two numbers, \<open>get_result\<close>
  raises the division-by-zero error exactly when some element at index 1 or later is
  zero. In \<open>[10 ** 400, 2, 0]\<close> the element at index 2 is zero, but the first division,
  of two ints, has a quotient too large for a float and raises \<open>OverflowError\<close>: the
  zero is never reached.
\<close>

theorem division_zero_divisor_counterexample:
  "to_rat ([PyInt (10 ^ 400), PyInt 2, PyInt 0] ! 2) = 0
   \<and> fst (get_result exact_arith
             (new_calculation Division 7 (PyList [PyInt (10 ^ 400), PyInt 2, PyInt 0])))
       = Inl OverflowError
   \<and> fst (get_result exact_arith
             (new_calculation Division 7 (PyList [PyInt (10 ^ 400), PyInt 2, PyInt 0])))
       \<noteq> Inl (ValueError ''Cannot divide by zero.'')"
proof -
  have q: "quotient_overflows (10 ^ 400) 2"
    by (simp add: quotient_overflows_def float_limit_def)
  have "fst (get_result exact_arith
             (new_calculation Division 7 (PyList [PyInt (10 ^ 400), PyInt 2, PyInt 0])))
       = Inl OverflowError"
    using q by (simp add: get_result_def Division_get_result_def new_calculation_def is_zero_def)
  then show ?thesis by simp
qed

text \<open>
  Claim C1, amended. For an instance of the division variant whose inputs are a list of
  at least two numbers: the division-by-zero error is raised only when some element at
  index 1 or later equals zero (exact equality); when there is such an element no
  number is returned, the outcome being that error or the \<open>OverflowError\<close> of an earlier
  division; and when every int of the list fits a float, the division-by-zero error is
  raised exactly when some element at index 1 or later equals zero, and a number is
  returned otherwise. The element at index 0 is never tested, so a zero there does not
  raise.
\<close>

theorem division_get_result_zero_divisor:
  assumes "cls self = Division" and "inputs self = PyList xs" and "2 \<le> length xs"
  shows "(fst (get_result ar self) = Inl (ValueError ''Cannot divide by zero.'')
            \<longrightarrow> (\<exists>i. 1 \<le> i \<and> i < length xs \<and> to_rat (xs ! i) = 0))
       \<and> ((\<exists>i. 1 \<le> i \<and> i < length xs \<and> to_rat (xs ! i) = 0)
            \<longrightarrow> fst (get_result ar self) = Inl (ValueError ''Cannot divide by zero.'')
                \<or> fst (get_result ar self) = Inl OverflowError)
       \<and> (list_all fits_float xs
            \<longrightarrow> (fst (get_result ar self) = Inl (ValueError ''Cannot divide by zero.'')
                   \<longleftrightarrow> (\<exists>i. 1 \<le> i \<and> i < length xs \<and> to_rat (xs ! i) = 0))
                \<and> ((\<exists>i. 1 \<le> i \<and> i < length xs \<and> to_rat (xs ! i) = 0)
                   \<or> (\<exists>r. fst (get_result ar self) = Inr r)))"
proof -
  let ?zero = "\<exists>i. 1 \<le> i \<and> i < length xs \<and> to_rat (xs ! i) = 0"
  let ?dz = "Inl (ValueError ''Cannot divide by zero.'') :: error + 'a pyvalue"
  have g: "fst (get_result ar self) = division_loop ar (value_of ar (xs ! 0)) (drop 1 xs)"
    using assms by (simp add: get_result_def Division_get_result_def)
  have z: "list_ex is_zero (drop 1 xs) \<longleftrightarrow> ?zero"
    using list_ex_drop1 [of is_zero xs] by (simp add: is_zero_def)
  have only: "fst (get_result ar self) = ?dz \<longrightarrow> ?zero"
    using g z division_loop_only_zero [of ar "value_of ar (xs ! 0)" "drop 1 xs"] by simp
  have never: "?zero \<longrightarrow> fst (get_result ar self) = ?dz
                 \<or> fst (get_result ar self) = Inl OverflowError"
    using g z division_loop_zero [of "drop 1 xs" ar "value_of ar (xs ! 0)"] by simp
  have fits: "(fst (get_result ar self) = ?dz \<longleftrightarrow> ?zero)
                \<and> (?zero \<or> (\<exists>r. fst (get_result ar self) = Inr r))"
    if f: "list_all fits_float xs"
  proof -
    from list_all_fits_split [OF assms(3) f]
    have f0: "value_fits (value_of ar (xs ! 0))" and fr: "list_all fits_float (drop 1 xs)"
      by (simp_all add: value_fits_value_of)
    from division_loop_fits [OF f0 fr, of ar] g z only show ?thesis by auto
  qed
  from only never fits show ?thesis by blast
qed

text \<open>
  The theorem at \<open>[25, 0, 2]\<close>, where the divisor at index 1 is zero, and at
  \<open>[0, 5, 2]\<close>, where only the numerator is.
\<close>

theorem division_get_result_zero_divisor_witness:
  "cls (new_calculation Division 7 (PyList [PyInt 25, PyInt 0, PyInt 2])) = Division
   \<and> inputs (new_calculation Division 7 (PyList [PyInt 25, PyInt 0, PyInt 2]))
       = PyList [PyInt 25, PyInt 0, PyInt 2]
   \<and> 2 \<le> length [PyInt 25, PyInt 0, PyInt 2]
   \<and> list_all fits_float [PyInt 25, PyInt 0, PyInt 2]
   \<and> to_rat ([PyInt 25, PyInt 0, PyInt 2] ! 1) = 0
   \<and> fst (get_result exact_arith
             (new_calculation Division 7 (PyList [PyInt 25, PyInt 0, PyInt 2])))
       = Inl (ValueError ''Cannot divide by zero.'')
   \<and> list_all fits_float [PyInt 0, PyInt 5, PyInt 2]
   \<and> (\<exists>r. fst (get_result exact_arith
                  (new_calculation Division 7 (PyList [PyInt 0, PyInt 5, PyInt 2])))
            = Inr r)"
proof -
  let ?xs = "[PyInt 25, PyInt 0, PyInt 2]"
  let ?ys = "[PyInt 0, PyInt 5, PyInt 2]"
  have c: "cls (new_calculation Division 7 (PyList zs)) = Division"
    and i: "inputs (new_calculation Division 7 (PyList zs)) = PyList zs" for zs
    by (simp_all add: new_calculation_def)
  have l: "2 \<le> length ?xs" and l': "2 \<le> length ?ys"
    by simp_all
  have f: "list_all fits_float ?xs" and f': "list_all fits_float ?ys"
    by (simp_all add: int_overflows_def float_limit_def)
  have z: "to_rat (?xs ! 1) = 0"
    by simp
  then have e: "\<exists>i. 1 \<le> i \<and> i < length ?xs \<and> to_rat (?xs ! i) = 0"
    by (intro exI [of _ 1]) simp
  have n: "\<not> (\<exists>i. 1 \<le> i \<and> i < length ?ys \<and> to_rat (?ys ! i) = 0)"
  proof
    assume "\<exists>i. 1 \<le> i \<and> i < length ?ys \<and> to_rat (?ys ! i) = 0"
    then obtain i where "1 \<le> i" "i < 3" "to_rat (?ys ! i) = 0" by auto
    then have "i = 1 \<or> i = 2" by arith
    with \<open>to_rat (?ys ! i) = 0\<close> show False by auto
  qed
  from division_get_result_zero_divisor [OF c i l, of exact_arith] f e
  have r: "fst (get_result exact_arith (new_calculation Division 7 (PyList ?xs)))
             = Inl (ValueError ''Cannot divide by zero.'')"
    by blast
  from division_get_result_zero_divisor [OF c i l', of exact_arith] f' n
  have r': "\<exists>r. fst (get_result exact_arith (new_calculation Division 7 (PyList ?ys))) = Inr r"
    by blast
  from c [of ?xs] i [of ?xs] l f z r f' r' show ?thesis by blast
qed

section \<open>Subtraction\<close>

text \<open>
  Claim C5. For an instance of the subtraction variant whose inputs are a list of at
  least two numbers, \<open>get_result\<close> is the left fold
  \<open>((inputs[0] - inputs[1]) - inputs[2]) - ...\<close> in the order given, an error of a
  subtraction included: on ints the exact differences, on floats the float differences
  from left to right. And \<open>create("subtraction", uid, [15, 4, 2]).get_result()\<close> is 9.
\<close>

theorem subtraction_get_result_left_fold:
  assumes "cls self = Subtraction" and "inputs self = PyList xs" and "2 \<le> length xs"
  shows "fst (get_result ar self) = left_fold_minus ar xs
       \<and> (xs = map PyInt js \<longrightarrow>
            fst (get_result ar self)
              = Inr (IntValue (foldl (\<lambda>a b. a - b) (js ! 0) (drop 1 js))))
       \<and> (xs = map PyFloat qs \<longrightarrow>
            fst (get_result ar self)
              = Inr (FloatValue (foldl (float_sub ar) (float_of_rat ar (qs ! 0))
                                   (map (float_of_rat ar) (drop 1 qs)))))
       \<and> create_get_result ar ''subtraction'' uid (PyList [PyInt 15, PyInt 4, PyInt 2])
           = Inr (IntValue 9)"
proof -
  have g: "fst (get_result ar self) = subtraction_loop ar (value_of ar (xs ! 0)) (drop 1 xs)"
    using assms by (simp add: get_result_def Subtraction_get_result_def)
  then have general: "fst (get_result ar self) = left_fold_minus ar xs"
    by (simp add: subtraction_loop_foldl left_fold_minus_def)
  have ints: "fst (get_result ar self)
                = Inr (IntValue (foldl (\<lambda>a b. a - b) (js ! 0) (drop 1 js)))"
    if "xs = map PyInt js"
  proof -
    from that assms(3) have "0 < length js" by auto
    with that have "value_of ar (xs ! 0) = IntValue (js ! 0)" by simp
    moreover from that have "drop 1 xs = map PyInt (drop 1 js)" by (simp add: drop_map)
    ultimately show ?thesis using g by (simp only: subtraction_loop_ints)
  qed
  have floats: "fst (get_result ar self)
                  = Inr (FloatValue (foldl (float_sub ar) (float_of_rat ar (qs ! 0))
                                       (map (float_of_rat ar) (drop 1 qs))))"
    if "xs = map PyFloat qs"
  proof -
    from that assms(3) have "0 < length qs" by auto
    with that have "value_of ar (xs ! 0) = FloatValue (float_of_rat ar (qs ! 0))" by simp
    moreover from that have "drop 1 xs = map PyFloat (drop 1 qs)" by (simp add: drop_map)
    ultimately show ?thesis using g by (simp only: subtraction_loop_floats)
  qed
  have example:
    "create_get_result ar ''subtraction'' uid (PyList [PyInt 15, PyInt 4, PyInt 2])
       = Inr (IntValue 9)"
    by (simp add: create_get_result_def create_def calculation_classes_def lower_def
        lower_char_def new_calculation_def get_result_def Subtraction_get_result_def)
  from general ints floats example show ?thesis by blast
qed

text \<open>
  The theorem at the ints \<open>[10, 3, 2]\<close>, the example of the class's documentation, and
  at the floats \<open>[10.0, 2.5, 0.5]\<close>.
\<close>

theorem subtraction_get_result_left_fold_witness:
  "cls (new_calculation Subtraction 7 (PyList [PyInt 10, PyInt 3, PyInt 2])) = Subtraction
   \<and> inputs (new_calculation Subtraction 7 (PyList [PyInt 10, PyInt 3, PyInt 2]))
       = PyList [PyInt 10, PyInt 3, PyInt 2]
   \<and> 2 \<le> length [PyInt 10, PyInt 3, PyInt 2]
   \<and> [PyInt 10, PyInt 3, PyInt 2] = map PyInt [10, 3, 2]
   \<and> fst (get_result exact_arith
             (new_calculation Subtraction 7 (PyList [PyInt 10, PyInt 3, PyInt 2])))
       = Inr (IntValue 5)
   \<and> [PyFloat 10, PyFloat (5 / 2), PyFloat (1 / 2)] = map PyFloat [10, 5 / 2, 1 / 2]
   \<and> fst (get_result exact_arith
             (new_calculation Subtraction 7
                (PyList [PyFloat 10, PyFloat (5 / 2), PyFloat (1 / 2)])))
       = Inr (FloatValue 7)"
proof -
  let ?xs = "[PyInt 10, PyInt 3, PyInt 2]"
  let ?ys = "[PyFloat 10, PyFloat (5 / 2), PyFloat (1 / 2)]"
  have c: "cls (new_calculation Subtraction 7 (PyList zs)) = Subtraction"
    and i: "inputs (new_calculation Subtraction 7 (PyList zs)) = PyList zs" for zs
    by (simp_all add: new_calculation_def)
  have l: "2 \<le> length ?xs" and l': "2 \<le> length ?ys"
    by simp_all
  have m: "?xs = map PyInt [10, 3, 2]" and m': "?ys = map PyFloat [10, 5 / 2, 1 / 2]"
    by simp_all
  from subtraction_get_result_left_fold
         [OF c i l, where ar = exact_arith and js = "[10, 3, 2]" and qs = "[]" and uid = 0] m
  have "fst (get_result exact_arith (new_calculation Subtraction 7 (PyList ?xs)))
          = Inr (IntValue (foldl (\<lambda>a b. a - b) ([10, 3, 2] ! 0) (drop 1 [10, 3, 2])))"
    by blast
  then have r: "fst (get_result exact_arith (new_calculation Subtraction 7 (PyList ?xs)))
                  = Inr (IntValue 5)"
    by simp
  from subtraction_get_result_left_fold
         [OF c i l', where ar = exact_arith and js = "[]" and qs = "[10, 5 / 2, 1 / 2]"
            and uid = 0] m'
  have "fst (get_result exact_arith (new_calculation Subtraction 7 (PyList ?ys)))
          = Inr (FloatValue (foldl (float_sub exact_arith)
                               (float_of_rat exact_arith ([10, 5 / 2, 1 / 2] ! 0))
                               (map (float_of_rat exact_arith) (drop 1 [10, 5 / 2, 1 / 2]))))"
    by blast
  then have r': "fst (get_result exact_arith (new_calculation Subtraction 7 (PyList ?ys)))
                   = Inr (FloatValue 7)"
    by (simp add: exact_arith_def)
  from c [of ?xs] i [of ?xs] l m r m' r' show ?thesis by blast
qed

section \<open>The sum of a list of ints\<close>

text \<open>
  On ints the additions are exact, and the sum of a list of ints does not depend on the
  order of its elements. On a list that holds a float the sum is what the interpreter's
  summation gives, and nothing is stated here about it.
\<close>

lemma ints_of_map: "ints_of (map PyInt js) = Some js"
  by (induction js) simp_all

lemma py_sum_ints: "py_sum ar (map PyInt js) = Inr (IntValue (sum_list js))"
  by (simp add: py_sum_def ints_of_map)

lemma py_sum_ints_permutation:
  assumes "mset js = mset ks"
  shows "py_sum ar (map PyInt js) = py_sum ar (map PyInt ks)"
proof -
  have "sum_list js = sum_mset (mset js)"
    by (simp add: sum_mset_sum_list)
  also have "\<dots> = sum_mset (mset ks)"
    using assms by simp
  also have "\<dots> = sum_list ks"
    by (simp add: sum_mset_sum_list)
  finally show ?thesis by (simp add: py_sum_ints)
qed

section \<open>The factory\<close>

text \<open>
  Claim C3, as stated: \<open>create("addition", uid, [42])\<close> and \<open>create("addition", uid, 42)\<close>
  raise at construction. They do not: both calls return an instance.
\<close>

theorem create_shape_errors_counterexample:
  "\<not> isl (create ''addition'' 7 (PyList [PyInt 42]))
   \<and> \<not> isl (create ''addition'' 7 (PyNum (PyInt 42)))"
  by (simp add: create_def calculation_classes_def lower_def lower_char_def)

text \<open>
  Claim C3, amended. \<open>create\<close> with the tag \<open>"addition"\<close> does not look at the inputs:
  for a list of one element and for a number in place of the list it returns the
  Addition instance holding them. The error is raised by \<open>get_result\<close> on that
  instance: fewer than two numbers for the one-element list, not a list for the number.
\<close>

theorem create_defers_shape_errors:
  "create ''addition'' uid (PyList [x]) = Inr (new_calculation Addition uid (PyList [x]))
   \<and> create_get_result ar ''addition'' uid (PyList [x])
       = Inl (ValueError ''Inputs must be a list with at least two numbers.'')
   \<and> create ''addition'' uid (PyNum n) = Inr (new_calculation Addition uid (PyNum n))
   \<and> create_get_result ar ''addition'' uid (PyNum n)
       = Inl (ValueError ''Inputs must be a list of numbers.'')"
  by (simp add: create_get_result_def create_def calculation_classes_def lower_def
      lower_char_def new_calculation_def get_result_def Addition_get_result_def)

text \<open>
  Claim C4. \<open>create\<close> lowercases the tag and looks it up among \<open>addition\<close>,
  \<open>subtraction\<close>, \<open>multiplication\<close> and \<open>division\<close>. A tag whose lowercasing is one of
  the four gives an instance, the same as the lowercased tag gives. Any other tag fails
  with the unsupported-type error, whose message ends with the tag as it was passed.
\<close>

theorem create_type_tag:
  "(lower t \<in> {''addition'', ''subtraction'', ''multiplication'', ''division''} \<longrightarrow>
      create t uid ins = create (lower t) uid ins \<and> (\<exists>c. create t uid ins = Inr c))
   \<and> (lower t \<notin> {''addition'', ''subtraction'', ''multiplication'', ''division''} \<longrightarrow>
      create t uid ins = Inl (ValueError (''Unsupported calculation type: '' @ t))
      \<and> suffix t (''Unsupported calculation type: '' @ t))"
proof (cases "calculation_classes (lower t)")
  case None
  then have "lower t \<notin> {''addition'', ''subtraction'', ''multiplication'', ''division''}"
    using calculation_classes_None [of "lower t"] by blast
  moreover from None
  have "create t uid ins = Inl (ValueError (''Unsupported calculation type: '' @ t))"
    by (simp add: create_def)
  moreover have "suffix t (''Unsupported calculation type: '' @ t)"
    by (rule suffixI) (rule refl)
  ultimately show ?thesis by blast
next
  case (Some k)
  then have "lower t \<in> {''addition'', ''subtraction'', ''multiplication'', ''division''}"
    using calculation_classes_None [of "lower t"] by auto
  moreover from Some have "create t uid ins = Inr (new_calculation k uid ins)"
    by (simp add: create_def)
  moreover from Some have "create (lower t) uid ins = Inr (new_calculation k uid ins)"
    by (simp add: create_def lower_idem)
  ultimately show ?thesis by simp
qed

text \<open>The theorem at \<open>"ADDITION"\<close> and at \<open>"power"\<close>.\<close>

theorem create_type_tag_witness:
  "lower ''ADDITION'' \<in> {''addition'', ''subtraction'', ''multiplication'', ''division''}
   \<and> create ''ADDITION'' 7 (PyList [PyInt 1, PyInt 2])
       = create ''addition'' 7 (PyList [PyInt 1, PyInt 2])
   \<and> lower ''power'' \<notin> {''addition'', ''subtraction'', ''multiplication'', ''division''}
   \<and> create ''power'' 7 (PyList [PyInt 5, PyInt 2])
       = Inl (ValueError ''Unsupported calculation type: power'')"
proof -
  have u: "lower ''ADDITION'' = ''addition''"
    by code_simp
  have p: "lower ''power'' = ''power''"
    by (simp add: lower_def lower_char_def)
  have m: "lower ''ADDITION'' \<in> {''addition'', ''subtraction'', ''multiplication'', ''division''}"
    by (simp add: u)
  have n: "lower ''power'' \<notin> {''addition'', ''subtraction'', ''multiplication'', ''division''}"
    by (simp add: p)
  from create_type_tag [of "''ADDITION''" 7 "PyList [PyInt 1, PyInt 2]"] m
  have a: "create ''ADDITION'' 7 (PyList [PyInt 1, PyInt 2])
             = create ''addition'' 7 (PyList [PyInt 1, PyInt 2])"
    by (simp add: u)
  from create_type_tag [of "''power''" 7 "PyList [PyInt 5, PyInt 2]"] n
  have b: "create ''power'' 7 (PyList [PyInt 5, PyInt 2])
             = Inl (ValueError ''Unsupported calculation type: power'')"
    by simp
  from m a n b show ?thesis by blast
qed

section \<open>The schemas\<close>





section \<open>The textual representation of an instance\<close>

text \<open>
  Claim C9, as stated: the representation is exactly
  \<open>Calculation(type=<type>, inputs=<inputs>)\<close>. For the instance of the test,
  multiplication of \<open>[7, 8, 9]\<close>, it is not that string.
\<close>

theorem repr_counterexample:
  "repr no_float_repr (new_calculation Multiplication 7 (PyList [PyInt 7, PyInt 8, PyInt 9]))
     \<noteq> ''Calculation(type=multiplication, inputs=[7, 8, 9])''"
  by (simp add: repr_def new_calculation_def)

text \<open>
  Claim C9, amended. The representation is
  \<open><Calculation(type=<type>, inputs=<inputs>)>\<close>, between angle brackets, with the
  type column and the inputs of the instance inserted; for multiplication of
  \<open>[7, 8, 9]\<close> it is \<open><Calculation(type=multiplication, inputs=[7, 8, 9])>\<close>.
\<close>

theorem repr_angle_brackets:
  "repr float_repr self =
     ''<Calculation(type='' @ type self @ '', inputs='' @
       py_format float_repr (inputs self) @ '')>''
   \<and> hd (repr float_repr self) = CHR ''<''
   \<and> last (repr float_repr self) = CHR ''>''
   \<and> repr float_repr (new_calculation Multiplication uid (PyList [PyInt 7, PyInt 8, PyInt 9]))
       = ''<Calculation(type=multiplication, inputs=[7, 8, 9])>''"
proof -
  have shape: "repr float_repr self =
     ''<Calculation(type='' @ type self @ '', inputs='' @
       py_format float_repr (inputs self) @ '')>''"
    by (simp add: repr_def)
  have first: "hd (repr float_repr self) = CHR ''<''"
    by (simp add: repr_def)
  have final: "last (repr float_repr self) = CHR ''>''"
    by (simp add: repr_def)
  have digits: "map (repr_number float_repr) [PyInt 7, PyInt 8, PyInt 9]
                  = [''7'', ''8'', ''9'']"
    by (simp add: str_int_def str_nat.simps digit_char_7 digit_char_8 digit_char_9)
  have "py_format float_repr (PyList [PyInt 7, PyInt 8, PyInt 9]) = ''[7, 8, 9]''"
    unfolding py_format.simps digits by simp
  then have example:
    "repr float_repr (new_calculation Multiplication uid (PyList [PyInt 7, PyInt 8, PyInt 9]))
       = ''<Calculation(type=multiplication, inputs=[7, 8, 9])>''"
    by (simp add: repr_def new_calculation_def)
  from shape first final example show ?thesis by blast
qed

section \<open>What get_result leaves behind\<close>

text \<open>
  Claim C10. \<open>get_result\<close> leaves the instance as it found it, for every class and every
  state of the instance, whether it returns a number or raises: all columns (id, type,
  inputs, result, created_at, updated_at among them) are unchanged. An instance made by
  \<open>create\<close> has no result, and still has none after \<open>get_result\<close>.
\<close>

theorem get_result_frame:
  "snd (get_result ar self) = self
   \<and> id' (snd (get_result ar self)) = id' self
   \<and> type (snd (get_result ar self)) = type self
   \<and> inputs (snd (get_result ar self)) = inputs self
   \<and> result (snd (get_result ar self)) = result self
   \<and> created_at (snd (get_result ar self)) = created_at self
   \<and> updated_at (snd (get_result ar self)) = updated_at self
   \<and> (create t uid ins = Inr c \<longrightarrow> result c = None \<and> result (snd (get_result ar c)) = None)"
proof -
  have frame: "snd (get_result ar s) = s" for s
    by (simp add: get_result_def AbstractCalculation_get_result_def Addition_get_result_def
        Subtraction_get_result_def Multiplication_get_result_def Division_get_result_def
        split: calc_class.split pyval.split)
  have "result c = None" if "create t uid ins = Inr c"
    using that by (auto simp add: create_def new_calculation_def split: option.splits)
  with frame show ?thesis by simp
qed

text \<open>The theorem at the division of \<open>[25, 0, 2]\<close>, where \<open>get_result\<close> raises.\<close>

theorem get_result_frame_witness:
  "create ''division'' 7 (PyList [PyInt 25, PyInt 0, PyInt 2])
     = Inr (new_calculation Division 7 (PyList [PyInt 25, PyInt 0, PyInt 2]))
   \<and> fst (get_result exact_arith (new_calculation Division 7 (PyList [PyInt 25, PyInt 0, PyInt 2])))
       = Inl (ValueError ''Cannot divide by zero.'')
   \<and> snd (get_result exact_arith (new_calculation Division 7 (PyList [PyInt 25, PyInt 0, PyInt 2])))
       = new_calculation Division 7 (PyList [PyInt 25, PyInt 0, PyInt 2])
   \<and> result (snd (get_result exact_arith (new_calculation Division 7 (PyList [PyInt 25, PyInt 0, PyInt 2]))))
       = None"
proof -
  let ?c = "new_calculation Division 7 (PyList [PyInt 25, PyInt 0, PyInt 2])"
  have cr: "create ''division'' 7 (PyList [PyInt 25, PyInt 0, PyInt 2]) = Inr ?c"
    by (simp add: create_def calculation_classes_def lower_def lower_char_def)
  have e: "fst (get_result exact_arith ?c) = Inl (ValueError ''Cannot divide by zero.'')"
    by (simp add: get_result_def Division_get_result_def new_calculation_def is_zero_def)
  from get_result_frame
         [where ar = exact_arith and self = ?c and t = "''division''" and uid = 7
            and ins = "PyList [PyInt 25, PyInt 0, PyInt 2]" and c = ?c] cr
  have "snd (get_result exact_arith ?c) = ?c \<and> result (snd (get_result exact_arith ?c)) = None"
    by blast
  with cr e show ?thesis by blast
qed

end
